theory Spec2Isabelle
  imports Main
begin

section \<open>JavaScript values\<close>

text \<open>
  The file \<^verbatim>\<open>implementors/core/convert/trait.TryFrom.js\<close> is one immediately invoked
  function: it builds an object \<^verbatim>\<open>implementors\<close> by four property assignments and
  then either calls \<^verbatim>\<open>window.register_implementors\<close> with it or stores it in
  \<^verbatim>\<open>window.pending_implementors\<close>.

  JavaScript is dynamically typed, so the values the script handles and the values a
  page may hold are one datatype. The object the script creates with \<^verbatim>\<open>{}\<close> lives in
  the page's store and is handled by reference (\<open>JRef\<close>, the number of its cell): the
  variable, the argument of the hook and the pending slot all name the same cell, and
  whoever holds the reference can change the object. The content of a cell is an object
  (the list of its own properties in creation order) together with the arrays and
  records its literals nest in it, as one value: the script never refers to a nested
  array or record on its own, and any change to one of them is a change of the cell.
  A function of the page is named by a number; what it does when called is given by the
  page (see \<open>host\<close> below). Numbers are integers here: fractions and NaN are not
  represented.
\<close>

datatype js_value =
    JUndefined
  | JNull
  | JBool bool
  | JNum int
  | JStr string
  | JArr "js_value list"
  | JObj "(string \<times> js_value) list"
  | JFunction nat
  | JRef nat

text \<open>
  The test of an \<^verbatim>\<open>if\<close> converts its operand with ToBoolean: \<^verbatim>\<open>undefined\<close>,
  \<^verbatim>\<open>null\<close>, \<^verbatim>\<open>false\<close>, \<^verbatim>\<open>0\<close> and the empty string are falsy, every object,
  array and function is truthy.
\<close>

fun to_boolean :: "js_value \<Rightarrow> bool" where
  "to_boolean JUndefined = False"
| "to_boolean JNull = False"
| "to_boolean (JBool b) = b"
| "to_boolean (JNum n) = (n \<noteq> 0)"
| "to_boolean (JStr s) = (s \<noteq> [])"
| "to_boolean (JArr xs) = True"
| "to_boolean (JObj ps) = True"
| "to_boolean (JFunction i) = True"
| "to_boolean (JRef a) = True"

text \<open>
  Assigning \<^verbatim>\<open>o[k] = v\<close> on an object replaces the value of an existing property
  where it stands and otherwise adds the property after the others. (The keys of this
  file are not array indices, which JavaScript would enumerate first, and the page is
  taken to have left \<^verbatim>\<open>Object.prototype\<close> without properties of these names.)
\<close>

fun put_property :: "string \<Rightarrow> js_value \<Rightarrow> (string \<times> js_value) list \<Rightarrow> (string \<times> js_value) list" where
  "put_property k v [] = [(k, v)]"
| "put_property k v ((k', v') # ps) =
     (if k' = k then (k, v) # ps else (k', v') # put_property k v ps)"

fun put_in :: "js_value \<Rightarrow> string \<Rightarrow> js_value \<Rightarrow> js_value" where
  "put_in (JObj ps) k v = JObj (put_property k v ps)"
| "put_in other k v = other"

text \<open>Reading: \<^verbatim>\<open>Object.keys(o)\<close>, \<^verbatim>\<open>o[k]\<close> (\<^verbatim>\<open>undefined\<close> for a missing
  property), and the elements of an array.\<close>

fun object_keys :: "js_value \<Rightarrow> string list" where
  "object_keys (JObj ps) = map fst ps"
| "object_keys v = []"

fun get_property :: "js_value \<Rightarrow> string \<Rightarrow> js_value" where
  "get_property (JObj ps) k = (case map_of ps k of Some v \<Rightarrow> v | None \<Rightarrow> JUndefined)"
| "get_property v k = JUndefined"

fun elements :: "js_value \<Rightarrow> js_value list" where
  "elements (JArr xs) = xs"
| "elements v = []"

fun is_array :: "js_value \<Rightarrow> bool" where
  "is_array (JArr xs) = True"
| "is_array v = False"

fun is_string :: "js_value \<Rightarrow> bool" where
  "is_string (JStr s) = True"
| "is_string v = False"

fun is_boolean :: "js_value \<Rightarrow> bool" where
  "is_boolean (JBool b) = True"
| "is_boolean v = False"

fun is_function :: "js_value \<Rightarrow> bool" where
  "is_function (JFunction i) = True"
| "is_function v = False"

section \<open>The implementor records of the file\<close>

text \<open>
  The right-hand sides of the four assignments, in the order and with the text of the
  source. Each record is an object literal with the properties \<^verbatim>\<open>text\<close>,
  \<^verbatim>\<open>synthetic\<close> and \<^verbatim>\<open>types\<close>; the escape \<^verbatim>\<open>\"\<close> of the source stands for the
  character \<^verbatim>\<open>"\<close>.
\<close>

definition quinn_proto_impls :: js_value where
  \<open>quinn_proto_impls = JArr
    [JObj [(''text'', JStr ''impl <a class="trait" href="https://doc.rust-lang.org/nightly/core/convert/trait.TryFrom.html" title="trait core::convert::TryFrom">TryFrom</a>&lt;<a class="primitive" href="https://doc.rust-lang.org/nightly/std/primitive.u64.html">u64</a>&gt; for <a class="struct" href="quinn_proto/struct.VarInt.html" title="struct quinn_proto::VarInt">VarInt</a>''),
         (''synthetic'', JBool False),
         (''types'', JArr [JStr ''quinn_proto::varint::VarInt''])],
     JObj [(''text'', JStr ''impl <a class="trait" href="https://doc.rust-lang.org/nightly/core/convert/trait.TryFrom.html" title="trait core::convert::TryFrom">TryFrom</a>&lt;<a class="primitive" href="https://doc.rust-lang.org/nightly/std/primitive.u128.html">u128</a>&gt; for <a class="struct" href="quinn_proto/struct.VarInt.html" title="struct quinn_proto::VarInt">VarInt</a>''),
         (''synthetic'', JBool False),
         (''types'', JArr [JStr ''quinn_proto::varint::VarInt''])],
     JObj [(''text'', JStr ''impl <a class="trait" href="https://doc.rust-lang.org/nightly/core/convert/trait.TryFrom.html" title="trait core::convert::TryFrom">TryFrom</a>&lt;<a class="primitive" href="https://doc.rust-lang.org/nightly/std/primitive.usize.html">usize</a>&gt; for <a class="struct" href="quinn_proto/struct.VarInt.html" title="struct quinn_proto::VarInt">VarInt</a>''),
         (''synthetic'', JBool False),
         (''types'', JArr [JStr ''quinn_proto::varint::VarInt''])],
     JObj [(''text'', JStr ''impl <a class="trait" href="https://doc.rust-lang.org/nightly/core/convert/trait.TryFrom.html" title="trait core::convert::TryFrom">TryFrom</a>&lt;<a class="struct" href="https://doc.rust-lang.org/nightly/core/time/struct.Duration.html" title="struct core::time::Duration">Duration</a>&gt; for <a class="struct" href="quinn_proto/struct.IdleTimeout.html" title="struct quinn_proto::IdleTimeout">IdleTimeout</a>''),
         (''synthetic'', JBool False),
         (''types'', JArr [JStr ''quinn_proto::config::IdleTimeout''])]]\<close>

definition rustls_impls :: js_value where
  \<open>rustls_impls = JArr
    [JObj [(''text'', JStr ''impl <a class="trait" href="https://doc.rust-lang.org/nightly/core/convert/trait.TryFrom.html" title="trait core::convert::TryFrom">TryFrom</a>&lt;<a class="struct" href="rustls/internal/msgs/message/struct.PlainMessage.html" title="struct rustls::internal::msgs::message::PlainMessage">PlainMessage</a>&gt; for <a class="struct" href="rustls/internal/msgs/message/struct.Message.html" title="struct rustls::internal::msgs::message::Message">Message</a>''),
         (''synthetic'', JBool False),
         (''types'', JArr [JStr ''rustls::msgs::message::Message''])],
     JObj [(''text'', JStr ''impl <a class="trait" href="https://doc.rust-lang.org/nightly/core/convert/trait.TryFrom.html" title="trait core::convert::TryFrom">TryFrom</a>&lt;&amp;'_ <a class="primitive" href="https://doc.rust-lang.org/nightly/std/primitive.str.html">str</a>&gt; for <a class="enum" href="rustls/client/enum.ServerName.html" title="enum rustls::client::ServerName">ServerName</a>''),
         (''synthetic'', JBool False),
         (''types'', JArr [JStr ''rustls::client::client_conn::ServerName''])]]\<close>

definition tinyvec_impls :: js_value where
  \<open>tinyvec_impls = JArr
    [JObj [(''text'', JStr ''impl&lt;T, A&gt; <a class="trait" href="https://doc.rust-lang.org/nightly/core/convert/trait.TryFrom.html" title="trait core::convert::TryFrom">TryFrom</a>&lt;<a class="primitive" href="https://doc.rust-lang.org/nightly/core/primitive.slice.html">&amp;'_ [T]</a>&gt; for <a class="struct" href="tinyvec/struct.ArrayVec.html" title="struct tinyvec::ArrayVec">ArrayVec</a>&lt;A&gt; <span class="where fmt-newline">where<br>&nbsp;&nbsp;&nbsp;&nbsp;T: <a class="trait" href="https://doc.rust-lang.org/nightly/core/clone/trait.Clone.html" title="trait core::clone::Clone">Clone</a> + <a class="trait" href="https://doc.rust-lang.org/nightly/core/default/trait.Default.html" title="trait core::default::Default">Default</a>,<br>&nbsp;&nbsp;&nbsp;&nbsp;A: <a class="trait" href="tinyvec/trait.Array.html" title="trait tinyvec::Array">Array</a>&lt;Item = T&gt;,&nbsp;</span>''),
         (''synthetic'', JBool False),
         (''types'', JArr [JStr ''tinyvec::arrayvec::ArrayVec''])]]\<close>

definition webpki_impls :: js_value where
  \<open>webpki_impls = JArr
    [JObj [(''text'', JStr ''impl&lt;'a&gt; <a class="trait" href="https://doc.rust-lang.org/nightly/core/convert/trait.TryFrom.html" title="trait core::convert::TryFrom">TryFrom</a>&lt;<a class="primitive" href="https://doc.rust-lang.org/nightly/std/primitive.slice.html">&amp;'a [</a><a class="primitive" href="https://doc.rust-lang.org/nightly/std/primitive.u8.html">u8</a><a class="primitive" href="https://doc.rust-lang.org/nightly/std/primitive.slice.html">]</a>&gt; for <a class="struct" href="webpki/struct.EndEntityCert.html" title="struct webpki::EndEntityCert">EndEntityCert</a>&lt;'a&gt;''),
         (''synthetic'', JBool False),
         (''types'', JArr [JStr ''webpki::end_entity::EndEntityCert''])],
     JObj [(''text'', JStr ''impl <a class="trait" href="https://doc.rust-lang.org/nightly/core/convert/trait.TryFrom.html" title="trait core::convert::TryFrom">TryFrom</a>&lt;<a class="struct" href="https://doc.rust-lang.org/nightly/std/time/struct.SystemTime.html" title="struct std::time::SystemTime">SystemTime</a>&gt; for <a class="struct" href="webpki/struct.Time.html" title="struct webpki::Time">Time</a>''),
         (''synthetic'', JBool False),
         (''types'', JArr [JStr ''webpki::time::Time''])]]\<close>

section \<open>The page and the script's state\<close>

text \<open>
  The script runs in a page, where \<^verbatim>\<open>window\<close> is the global object. Of the page the
  model keeps the store of its objects and the properties of \<^verbatim>\<open>window\<close> as a lookup
  finds them, own or inherited. A property is a data property, with its value and
  whether it is writable, or an accessor property, with its getter and its setter, each
  a function of the page or missing. (\<^verbatim>\<open>window\<close> cannot be made non-extensible, so a
  property that is absent can always be added.)
\<close>

datatype property = Data js_value bool | Accessor "nat option" "nat option"

record page =
  store :: "js_value list"
  window :: "string \<Rightarrow> property option"

text \<open>
  A function of the page, called with arguments on the page as it stands, returns a
  value or throws, and leaves a page behind in both cases: it may have changed any
  property of \<^verbatim>\<open>window\<close> and any object of the store, the script's table included.
\<close>

datatype js_exception = TypeError | HostException js_value

datatype result = Return js_value | Raise js_exception

datatype completion = Normal | Throw js_exception

fun completion_of :: "result \<Rightarrow> completion" where
  "completion_of (Return v) = Normal"
| "completion_of (Raise e) = Throw e"

type_synonym host = "nat \<Rightarrow> js_value list \<Rightarrow> page \<Rightarrow> result \<times> page"

text \<open>
  What the script itself does to the page is recorded as it happens: a call expression
  with callee and arguments, or an assignment to a property of \<^verbatim>\<open>window\<close> (whether
  or not the property takes the value). The state of a run is the page, the script's
  local variable and this record.
\<close>

datatype event = Call js_value "js_value list" | Store string js_value

record state = page +
  implementors :: js_value
  trace :: "event list"

definition page_of :: "state \<Rightarrow> page" where
  "page_of s = \<lparr>store = store s, window = window s\<rparr>"

definition with_page :: "page \<Rightarrow> state \<Rightarrow> state" where
  "with_page q s = s\<lparr>store := store q, window := window q\<rparr>"

definition invoke :: "host \<Rightarrow> nat \<Rightarrow> js_value list \<Rightarrow> state \<Rightarrow> result \<times> state" where
  "invoke h i args s = (case h i args (page_of s) of (r, q) \<Rightarrow> (r, with_page q s))"

type_synonym stmt = "state \<Rightarrow> completion \<times> state"

text \<open>Statements run in sequence; a throw ends the run, with the state reached.\<close>

definition seq :: "stmt \<Rightarrow> stmt \<Rightarrow> stmt" where
  "seq a b s = (case a s of (Normal, s') \<Rightarrow> b s' | (Throw e, s') \<Rightarrow> (Throw e, s'))"

section \<open>The statements of the script\<close>

text \<open>\<^verbatim>\<open>var implementors = {};\<close> A new object takes the next cell of the store.\<close>

definition var_implementors :: stmt where
  "var_implementors s =
     (Normal, s\<lparr>store := store s @ [JObj []], implementors := JRef (length (store s))\<rparr>)"

text \<open>
  \<^verbatim>\<open>implementors[k] = v;\<close> The property is put on the object the variable refers to,
  in its cell. On \<^verbatim>\<open>undefined\<close> and \<^verbatim>\<open>null\<close> the assignment throws a TypeError; on
  a boolean, number or string it is dropped (the script is not in strict mode). Arrays
  and functions hold no named properties in this model; the script assigns to the
  object of \<^verbatim>\<open>{}\<close> only.
\<close>

definition assign_implementors :: "string \<Rightarrow> js_value \<Rightarrow> stmt" where
  "assign_implementors k v s =
     (case implementors s of
        JRef a \<Rightarrow>
          (if a < length (store s)
           then (Normal, s\<lparr>store := (store s)[a := put_in (store s ! a) k v]\<rparr>)
           else (Normal, s))
      | JUndefined \<Rightarrow> (Throw TypeError, s)
      | JNull \<Rightarrow> (Throw TypeError, s)
      | _ \<Rightarrow> (Normal, s))"

text \<open>
  \<^verbatim>\<open>window[k]\<close>: a data property gives its value, a missing property and an accessor
  without getter give \<^verbatim>\<open>undefined\<close>, and a getter is called, with no arguments.
\<close>

definition read_global :: "host \<Rightarrow> string \<Rightarrow> state \<Rightarrow> result \<times> state" where
  "read_global h k s =
     (case window s k of
        None \<Rightarrow> (Return JUndefined, s)
      | Some (Data v wr) \<Rightarrow> (Return v, s)
      | Some (Accessor None st) \<Rightarrow> (Return JUndefined, s)
      | Some (Accessor (Some g) st) \<Rightarrow> invoke h g [] s)"

text \<open>
  \<^verbatim>\<open>window[k] = v;\<close> outside strict mode: a missing property is created, writable; a
  writable data property takes the value; on a data property that is not writable, and
  on an accessor without setter, the assignment is dropped without an error; a setter
  is called with the value, and what it returns is ignored.
\<close>

definition write_global :: "host \<Rightarrow> string \<Rightarrow> js_value \<Rightarrow> stmt" where
  "write_global h k v s =
     (case window s k of
        None \<Rightarrow>
          (Normal, s\<lparr>window := (window s)(k \<mapsto> Data v True), trace := trace s @ [Store k v]\<rparr>)
      | Some (Data old True) \<Rightarrow>
          (Normal, s\<lparr>window := (window s)(k \<mapsto> Data v True), trace := trace s @ [Store k v]\<rparr>)
      | Some (Data old False) \<Rightarrow> (Normal, s\<lparr>trace := trace s @ [Store k v]\<rparr>)
      | Some (Accessor g None) \<Rightarrow> (Normal, s\<lparr>trace := trace s @ [Store k v]\<rparr>)
      | Some (Accessor g (Some st)) \<Rightarrow>
          (case invoke h st [v] (s\<lparr>trace := trace s @ [Store k v]\<rparr>) of
             (r, s') \<Rightarrow> (completion_of r, s')))"

text \<open>
  \<^verbatim>\<open>f(args)\<close>: a value that is not a function cannot be called (TypeError, and nothing
  is invoked); a function is invoked on the page as it stands, and what it returns is
  dropped, as the script's expression statement drops it.
\<close>

definition call_function :: "host \<Rightarrow> js_value \<Rightarrow> js_value list \<Rightarrow> stmt" where
  "call_function h f args s =
     (case f of
        JFunction i \<Rightarrow>
          (case invoke h i args (s\<lparr>trace := trace s @ [Call f args]\<rparr>) of
             (r, s') \<Rightarrow> (completion_of r, s'))
      | _ \<Rightarrow> (Throw TypeError, s))"

text \<open>
  \<^verbatim>\<open>if (window.register_implementors) {window.register_implementors(implementors);}
  else {window.pending_implementors = implementors;}\<close>
  The property is read for the test and read again for the call.
\<close>

definition dispatch :: "host \<Rightarrow> stmt" where
  "dispatch h s =
     (case read_global h ''register_implementors'' s of
        (Raise e, s1) \<Rightarrow> (Throw e, s1)
      | (Return c, s1) \<Rightarrow>
          (if to_boolean c
           then (case read_global h ''register_implementors'' s1 of
                   (Raise e, s2) \<Rightarrow> (Throw e, s2)
                 | (Return f, s2) \<Rightarrow> call_function h f [implementors s2] s2)
           else write_global h ''pending_implementors'' (implementors s1) s1))"

text \<open>
  The four assignments of the file, in its order: the key, and the array literal on the
  right.
\<close>

definition assignments :: "(string \<times> js_value) list" where
  "assignments =
     [(''quinn_proto'', quinn_proto_impls),
      (''rustls'', rustls_impls),
      (''tinyvec'', tinyvec_impls),
      (''webpki'', webpki_impls)]"

fun assign_all :: "(string \<times> js_value) list \<Rightarrow> stmt" where
  "assign_all [] = (\<lambda>s. (Normal, s))"
| "assign_all ((k, v) # kvs) = seq (assign_implementors k v) (assign_all kvs)"

text \<open>The body of the function: the table is built, then dispatched.\<close>

definition construct :: stmt where
  "construct = seq var_implementors (assign_all assignments)"

definition script :: "host \<Rightarrow> stmt" where
  "script h = seq construct (dispatch h)"

text \<open>
  Loading the file calls the function once, in the page as it is. The local variable is
  \<^verbatim>\<open>undefined\<close> until the first statement has run, and nothing has been recorded yet.
\<close>

definition initial :: "page \<Rightarrow> state" where
  "initial p = \<lparr>store = store p, window = window p, implementors = JUndefined, trace = []\<rparr>"

definition load :: "host \<Rightarrow> page \<Rightarrow> completion \<times> state" where
  "load h p = script h (initial p)"

section \<open>Reading a run\<close>

text \<open>The calls and the stores among the recorded events, in order.\<close>

fun calls :: "event list \<Rightarrow> (js_value \<times> js_value list) list" where
  "calls [] = []"
| "calls (Call f args # es) = (f, args) # calls es"
| "calls (Store k v # es) = calls es"

fun stores :: "event list \<Rightarrow> (string \<times> js_value) list" where
  "stores [] = []"
| "stores (Call f args # es) = stores es"
| "stores (Store k v # es) = (k, v) # stores es"

text \<open>
  The object a value stands for in a store, the table the script's variable refers to,
  and the object found in a property of \<^verbatim>\<open>window\<close>.
\<close>

fun deref :: "js_value list \<Rightarrow> js_value \<Rightarrow> js_value" where
  "deref cells (JRef a) = (if a < length cells then cells ! a else JUndefined)"
| "deref cells v = v"

definition table_of :: "state \<Rightarrow> js_value" where
  "table_of s = deref (store s) (implementors s)"

definition slot_object :: "state \<Rightarrow> string \<Rightarrow> js_value" where
  "slot_object s k =
     (case window s k of Some (Data v wr) \<Rightarrow> deref (store s) v | _ \<Rightarrow> JUndefined)"

text \<open>
  The object the four assignments build, written as one literal: the four keys in the
  order of the assignments, each with its array (lemma \<open>construct_builds\<close> below shows
  that the statements produce it). The state in which the dispatch starts is the state
  the construction leaves.
\<close>

abbreviation implementors_object :: js_value where
  "implementors_object \<equiv>
     JObj [(''quinn_proto'', quinn_proto_impls), (''rustls'', rustls_impls),
           (''tinyvec'', tinyvec_impls), (''webpki'', webpki_impls)]"

abbreviation built :: "page \<Rightarrow> state" where
  "built p \<equiv> snd (construct (initial p))"

text \<open>
  How a property of \<^verbatim>\<open>window\<close> answers without running any function of the page:
  the value a read gives (none when a getter would run), whether an assignment gives
  the property the value, whether an assignment is dropped, and the setter an assignment
  would call.
\<close>

definition plain_read :: "page \<Rightarrow> string \<Rightarrow> js_value option" where
  "plain_read p k =
     (case window p k of
        None \<Rightarrow> Some JUndefined
      | Some (Data v wr) \<Rightarrow> Some v
      | Some (Accessor None st) \<Rightarrow> Some JUndefined
      | Some (Accessor (Some g) st) \<Rightarrow> None)"

definition takes_write :: "page \<Rightarrow> string \<Rightarrow> bool" where
  "takes_write p k =
     (case window p k of None \<Rightarrow> True | Some (Data v wr) \<Rightarrow> wr | Some (Accessor g st) \<Rightarrow> False)"

definition drops_write :: "page \<Rightarrow> string \<Rightarrow> bool" where
  "drops_write p k =
     (case window p k of
        None \<Rightarrow> False
      | Some (Data v wr) \<Rightarrow> \<not> wr
      | Some (Accessor g st) \<Rightarrow> st = None)"

definition setter_of :: "page \<Rightarrow> string \<Rightarrow> nat option" where
  "setter_of p k =
     (case window p k of Some (Accessor g (Some st)) \<Rightarrow> Some st | _ \<Rightarrow> None)"

text \<open>
  The reference the script's variable holds once the table is built, and the page as it
  is then: the page before, with the table in the next cell of the store.
\<close>

abbreviation table_ref :: "page \<Rightarrow> js_value" where
  "table_ref p \<equiv> JRef (length (store p))"

abbreviation built_page :: "page \<Rightarrow> page" where
  "built_page p \<equiv> \<lparr>store = store p @ [implementors_object], window = window p\<rparr>"

text \<open>
  The shape of a record under the library key \<open>lib\<close>: its own properties are
  \<^verbatim>\<open>text\<close>, \<^verbatim>\<open>synthetic\<close> and \<^verbatim>\<open>types\<close> and no others; \<^verbatim>\<open>text\<close> is a string,
  \<^verbatim>\<open>synthetic\<close> a boolean, \<^verbatim>\<open>types\<close> an array of strings, each a path that begins
  with the library's name and \<^verbatim>\<open>::\<close>.
\<close>

fun qualified_under :: "string \<Rightarrow> js_value \<Rightarrow> bool" where
  "qualified_under lib (JStr s) = (take (length lib + 2) s = lib @ ''::'')"
| "qualified_under lib v = False"

definition record_shape :: "string \<Rightarrow> js_value \<Rightarrow> bool" where
  "record_shape lib r \<longleftrightarrow>
     object_keys r = [''text'', ''synthetic'', ''types''] \<and>
     is_string (get_property r ''text'') \<and>
     is_boolean (get_property r ''synthetic'') \<and>
     is_array (get_property r ''types'') \<and>
     list_all is_string (elements (get_property r ''types'')) \<and>
     list_all (qualified_under lib) (elements (get_property r ''types''))"





section \<open>Pages and hosts used as examples\<close>

text \<open>
  A page that has set nothing; a page whose documentation script has defined the hook as
  its function number 0; a page where the property holds \<^verbatim>\<open>true\<close> instead of a
  function; a page that has made \<^verbatim>\<open>pending_implementors\<close> a read-only property; and
  a page that has given it a setter, its function number 1. A host whose functions
  return at once, one whose functions throw, and one whose functions empty every
  object of the store.
\<close>

definition blank_page :: page where
  "blank_page = \<lparr>store = [], window = (\<lambda>k. None)\<rparr>"

definition hooked_page :: page where
  "hooked_page =
     \<lparr>store = [], window = (\<lambda>k. None)(''register_implementors'' \<mapsto> Data (JFunction 0) True)\<rparr>"

definition flagged_page :: page where
  "flagged_page =
     \<lparr>store = [], window = (\<lambda>k. None)(''register_implementors'' \<mapsto> Data (JBool True) True)\<rparr>"

definition locked_page :: page where
  "locked_page =
     \<lparr>store = [], window = (\<lambda>k. None)(''pending_implementors'' \<mapsto> Data (JStr ''old'') False)\<rparr>"

definition guarded_page :: page where
  "guarded_page =
     \<lparr>store = [], window = (\<lambda>k. None)(''pending_implementors'' \<mapsto> Accessor None (Some 1))\<rparr>"

definition returning_host :: host where
  "returning_host i args q = (Return JUndefined, q)"

definition throwing_host :: host where
  "throwing_host i args q = (Raise (HostException (JStr ''register failed'')), q)"

definition emptying_host :: host where
  "emptying_host i args q = (Return JUndefined, q\<lparr>store := map (\<lambda>c. JObj []) (store q)\<rparr>)"

section \<open>What a load does\<close>

lemma construct_builds:
  "construct (initial p) =
     (Normal, \<lparr>store = store p @ [implementors_object], window = window p,
               implementors = JRef (length (store p)), trace = []\<rparr>)"
  by (simp add: construct_def initial_def assignments_def seq_def var_implementors_def
      assign_implementors_def)

lemma built_state:
  "built p =
     \<lparr>store = store p @ [implementors_object], window = window p,
      implementors = JRef (length (store p)), trace = []\<rparr>"
  by (simp add: construct_builds)

lemma load_dispatch: "load h p = dispatch h (built p)"
  by (simp add: load_def script_def seq_def construct_builds)

lemma table_built: "table_of (built p) = implementors_object"
  by (simp add: built_state table_of_def)

lemma load_absent_takes:
  assumes "plain_read p ''register_implementors'' = Some v" and "\<not> to_boolean v"
    and "takes_write p ''pending_implementors''"
  shows "load h p =
    (Normal,
     \<lparr>store = store p @ [implementors_object],
      window = (window p)(''pending_implementors'' \<mapsto> Data (table_ref p) True),
      implementors = table_ref p,
      trace = [Store ''pending_implementors'' (table_ref p)]\<rparr>)"
  using assms
  by (auto simp: load_dispatch built_state dispatch_def read_global_def write_global_def
      plain_read_def takes_write_def split: option.splits property.splits bool.splits)

lemma load_absent_drops:
  assumes "plain_read p ''register_implementors'' = Some v" and "\<not> to_boolean v"
    and "drops_write p ''pending_implementors''"
  shows "load h p =
    (Normal,
     \<lparr>store = store p @ [implementors_object], window = window p,
      implementors = table_ref p,
      trace = [Store ''pending_implementors'' (table_ref p)]\<rparr>)"
  using assms
  by (auto simp: load_dispatch built_state dispatch_def read_global_def write_global_def
      plain_read_def drops_write_def split: option.splits property.splits bool.splits)

lemma load_absent_setter:
  assumes "plain_read p ''register_implementors'' = Some v" and "\<not> to_boolean v"
    and "setter_of p ''pending_implementors'' = Some st"
  shows "load h p =
    (completion_of (fst (h st [table_ref p] (built_page p))),
     \<lparr>store = store (snd (h st [table_ref p] (built_page p))),
      window = window (snd (h st [table_ref p] (built_page p))),
      implementors = table_ref p,
      trace = [Store ''pending_implementors'' (table_ref p)]\<rparr>)"
  using assms
  by (auto simp: load_dispatch built_state dispatch_def read_global_def write_global_def
      plain_read_def setter_of_def invoke_def page_of_def with_page_def
      split: option.splits property.splits bool.splits prod.splits)

lemma load_function:
  assumes "plain_read p ''register_implementors'' = Some (JFunction i)"
  shows "load h p =
    (completion_of (fst (h i [table_ref p] (built_page p))),
     \<lparr>store = store (snd (h i [table_ref p] (built_page p))),
      window = window (snd (h i [table_ref p] (built_page p))),
      implementors = table_ref p,
      trace = [Call (JFunction i) [table_ref p]]\<rparr>)"
  using assms
  by (auto simp: load_dispatch built_state dispatch_def read_global_def call_function_def
      plain_read_def invoke_def page_of_def with_page_def
      split: option.splits property.splits prod.splits)

lemma load_not_callable:
  assumes "plain_read p ''register_implementors'' = Some v" and "to_boolean v"
    and "\<not> is_function v"
  shows "load h p =
    (Throw TypeError,
     \<lparr>store = store p @ [implementors_object], window = window p,
      implementors = table_ref p, trace = []\<rparr>)"
  using assms
  by (cases v)
     (auto simp: load_dispatch built_state dispatch_def read_global_def call_function_def
      plain_read_def split: option.splits property.splits)

lemma write_cases:
  obtains (takes) "takes_write p k" | (drops) "drops_write p k"
  | (setter) st where "setter_of p k = Some st"
proof (cases "window p k")
  case None
  then have "takes_write p k" by (simp add: takes_write_def)
  then show ?thesis by (rule takes)
next
  case (Some pr)
  show ?thesis
  proof (cases pr)
    case (Data v wr)
    with Some have "takes_write p k \<or> drops_write p k"
      by (simp add: takes_write_def drops_write_def)
    then show ?thesis using takes drops by blast
  next
    case (Accessor g st)
    show ?thesis
    proof (cases st)
      case None
      with Some Accessor have "drops_write p k" by (simp add: drops_write_def)
      then show ?thesis by (rule drops)
    next
      case (Some f)
      with \<open>window p k = Some pr\<close> Accessor have "setter_of p k = Some f"
        by (simp add: setter_of_def)
      then show ?thesis by (rule setter)
    qed
  qed
qed

lemma completion_of_Throw: "completion_of r = Throw e \<longleftrightarrow> r = Raise e"
  by (cases r) simp_all

lemma invoke_fst: "fst (invoke h i args s) = fst (h i args (page_of s))"
  by (simp add: invoke_def split: prod.split)

lemma invoke_pair:
  "invoke h i args s = (fst (h i args (page_of s)), with_page (snd (h i args (page_of s))) s)"
  by (simp add: invoke_def split: prod.split)

lemma read_global_raise:
  assumes "fst (read_global h k s) = Raise e"
  shows "\<exists>i args q. fst (h i args q) = Raise e"
  using assms
  by (auto simp: read_global_def invoke_fst split: option.splits property.splits)

lemma write_global_throw:
  assumes "fst (write_global h k v s) = Throw e"
  shows "\<exists>i args q. fst (h i args q) = Raise e"
  using assms
  by (auto simp: write_global_def invoke_pair completion_of_Throw
      split: option.splits property.splits bool.splits)

lemma call_function_throw:
  assumes "fst (call_function h f args s) = Throw e"
  shows "e = TypeError \<or> (\<exists>i args q. fst (h i args q) = Raise e)"
  using assms
  by (cases f) (auto simp: call_function_def invoke_pair completion_of_Throw)

lemma dispatch_throw:
  assumes "fst (dispatch h s) = Throw e"
  shows "e = TypeError \<or> (\<exists>i args q. fst (h i args q) = Raise e)"
proof (cases "read_global h ''register_implementors'' s")
  case (Pair r1 s1)
  show ?thesis
  proof (cases r1)
    case (Raise e1)
    with Pair assms have "e1 = e" by (simp add: dispatch_def)
    with Pair Raise have "fst (read_global h ''register_implementors'' s) = Raise e" by simp
    then show ?thesis by (blast dest: read_global_raise)
  next
    case (Return c)
    show ?thesis
    proof (cases "to_boolean c")
      case False
      with Pair Return assms
      have "fst (write_global h ''pending_implementors'' (implementors s1) s1) = Throw e"
        by (simp add: dispatch_def)
      then show ?thesis by (blast dest: write_global_throw)
    next
      case True
      show ?thesis
      proof (cases "read_global h ''register_implementors'' s1")
        case again: (Pair r2 s2)
        show ?thesis
        proof (cases r2)
          case (Raise e2)
          with Pair Return True again assms have "e2 = e" by (simp add: dispatch_def)
          with again Raise have "fst (read_global h ''register_implementors'' s1) = Raise e"
            by simp
          then show ?thesis by (blast dest: read_global_raise)
        next
          case f: (Return f)
          with Pair Return True again assms
          have "fst (call_function h f [implementors s2] s2) = Throw e"
            by (simp add: dispatch_def)
          then show ?thesis by (blast dest: call_function_throw)
        qed
      qed
    qed
  qed
qed

lemma dispatch_steps:
  "dispatch h s =
     (case fst (read_global h ''register_implementors'' s) of
        Raise e \<Rightarrow> (Throw e, snd (read_global h ''register_implementors'' s))
      | Return c \<Rightarrow>
          (if to_boolean c
           then (case fst (read_global h ''register_implementors''
                            (snd (read_global h ''register_implementors'' s))) of
                   Raise e \<Rightarrow>
                     (Throw e, snd (read_global h ''register_implementors''
                                     (snd (read_global h ''register_implementors'' s))))
                 | Return f \<Rightarrow>
                     call_function h f
                       [implementors (snd (read_global h ''register_implementors''
                                            (snd (read_global h ''register_implementors'' s))))]
                       (snd (read_global h ''register_implementors''
                              (snd (read_global h ''register_implementors'' s)))))
           else write_global h ''pending_implementors''
                  (implementors (snd (read_global h ''register_implementors'' s)))
                  (snd (read_global h ''register_implementors'' s))))"
proof (cases "read_global h ''register_implementors'' s")
  case (Pair r1 s1)
  show ?thesis
  proof (cases "read_global h ''register_implementors'' s1")
    case again: (Pair r2 s2)
    from Pair again show ?thesis
      by (simp add: dispatch_def split: result.split)
  qed
qed

lemma with_page_keeps:
  "implementors (with_page q s) = implementors s" "trace (with_page q s) = trace s"
  "store (with_page q s) = store q" "window (with_page q s) = window q"
  by (simp_all add: with_page_def)

lemma read_global_keeps:
  "implementors (snd (read_global h k s)) = implementors s"
  "trace (snd (read_global h k s)) = trace s"
  by (simp_all add: read_global_def invoke_pair with_page_keeps
      split: option.split property.split)

lemma write_global_keeps:
  "implementors (snd (write_global h k v s)) = implementors s"
  "trace (snd (write_global h k v s)) = trace s @ [Store k v]"
  by (simp_all add: write_global_def invoke_pair with_page_keeps
      split: option.split property.split bool.split)

lemma call_function_keeps:
  "implementors (snd (call_function h f args s)) = implementors s"
  "trace (snd (call_function h f args s)) = trace s \<or>
   trace (snd (call_function h f args s)) = trace s @ [Call f args]"
  by (simp_all add: call_function_def invoke_pair with_page_keeps split: js_value.split)

lemma dispatch_keeps_variable:
  "implementors (snd (dispatch h s)) = implementors s"
  by (simp add: dispatch_steps read_global_keeps write_global_keeps call_function_keeps
      split: result.split)

lemma dispatch_trace:
  "trace (snd (dispatch h s)) = trace s \<or>
   (\<exists>f. trace (snd (dispatch h s)) = trace s @ [Call f [implementors s]]) \<or>
   trace (snd (dispatch h s)) = trace s @ [Store ''pending_implementors'' (implementors s)]"
proof (cases "fst (read_global h ''register_implementors'' s)")
  case (Raise e)
  then show ?thesis by (simp add: dispatch_steps read_global_keeps)
next
  case (Return c)
  show ?thesis
  proof (cases "to_boolean c")
    case False
    with Return show ?thesis
      by (simp add: dispatch_steps read_global_keeps write_global_keeps)
  next
    case True
    show ?thesis
    proof (cases "fst (read_global h ''register_implementors''
                        (snd (read_global h ''register_implementors'' s)))")
      case (Raise e)
      with Return True show ?thesis by (simp add: dispatch_steps read_global_keeps)
    next
      case f: (Return f)
      from call_function_keeps(2)
        [of h f "[implementors s]"
          "snd (read_global h ''register_implementors''
                 (snd (read_global h ''register_implementors'' s)))"]
      have "trace (snd (dispatch h s)) = trace s \<or>
            trace (snd (dispatch h s)) = trace s @ [Call f [implementors s]]"
        using Return True f by (simp add: dispatch_steps read_global_keeps)
      then show ?thesis by blast
    qed
  qed
qed

lemma read_global_store:
  assumes "\<forall>i args q. store (snd (h i args q)) = store q"
  shows "store (snd (read_global h k s)) = store s"
  using assms
  by (simp add: read_global_def invoke_pair with_page_keeps page_of_def
      split: option.split property.split)

lemma write_global_store:
  assumes "\<forall>i args q. store (snd (h i args q)) = store q"
  shows "store (snd (write_global h k v s)) = store s"
  using assms
  by (simp add: write_global_def invoke_pair with_page_keeps page_of_def
      split: option.split property.split bool.split)

lemma call_function_store:
  assumes "\<forall>i args q. store (snd (h i args q)) = store q"
  shows "store (snd (call_function h f args s)) = store s"
  using assms
  by (simp add: call_function_def invoke_pair with_page_keeps page_of_def split: js_value.split)

lemma dispatch_store:
  assumes "\<forall>i args q. store (snd (h i args q)) = store q"
  shows "store (snd (dispatch h s)) = store s"
  using assms
  by (simp add: dispatch_steps read_global_store write_global_store call_function_store
      split: result.split)

lemma load_trace:
  "trace (snd (load h p)) = [] \<or>
   (\<exists>f. trace (snd (load h p)) = [Call f [table_ref p]]) \<or>
   trace (snd (load h p)) = [Store ''pending_implementors'' (table_ref p)]"
  using dispatch_trace [of h "built p"] by (simp add: load_dispatch built_state)

lemma load_throw:
  assumes "fst (load h p) = Throw e"
  shows "e = TypeError \<or> (\<exists>i args q. fst (h i args q) = Raise e)"
  using assms dispatch_throw [of h "built p" e] by (simp add: load_dispatch)

section \<open>The two branches\<close>

text \<open>
  C1. If the page has defined the registration hook before the script loads
  (\<^verbatim>\<open>window.register_implementors\<close> holds a function), the script invokes that
  function exactly once, and its only argument is the complete table: the load is one
  application of the hook to the reference of the table, on the page in which that
  reference stands for the object with the four library keys and all their records;
  the load completes as this call does and leaves the page the call leaves; and the one
  call the script has made is this one. This holds whatever the hook does, returning or
  throwing.
\<close>

theorem hook_invoked_once:
  assumes "plain_read p ''register_implementors'' = Some (JFunction i)"
  shows "load h p =
           (completion_of (fst (h i [table_ref p] (built_page p))),
            \<lparr>store = store (snd (h i [table_ref p] (built_page p))),
             window = window (snd (h i [table_ref p] (built_page p))),
             implementors = table_ref p,
             trace = [Call (JFunction i) [table_ref p]]\<rparr>) \<and>
         deref (store (built_page p)) (table_ref p) = implementors_object \<and>
         calls (trace (snd (load h p))) = [(JFunction i, [table_ref p])]"
  using assms by (simp add: load_function)

theorem hook_invoked_once_witness:
  "plain_read hooked_page ''register_implementors'' = Some (JFunction 0) \<and>
   load returning_host hooked_page =
     (Normal,
      \<lparr>store = [implementors_object], window = window hooked_page,
       implementors = JRef 0, trace = [Call (JFunction 0) [JRef 0]]\<rparr>) \<and>
   load emptying_host hooked_page =
     (Normal,
      \<lparr>store = [JObj []], window = window hooked_page,
       implementors = JRef 0, trace = [Call (JFunction 0) [JRef 0]]\<rparr>)"
  using hook_invoked_once [of hooked_page 0 returning_host]
    hook_invoked_once [of hooked_page 0 emptying_host]
  by (simp add: hooked_page_def plain_read_def returning_host_def emptying_host_def)

text \<open>
  C2, as the code has it. If no registration hook is defined before the script loads
  (the property is absent or holds a falsy value) and \<^verbatim>\<open>window.pending_implementors\<close>
  is absent or an ordinary writable property, then the run completes normally and
  leaves the page as it was but for the table in the store and the pending slot, which
  holds the reference of the complete table; no function of the page has been invoked
  (the host does not occur in the result, and the script has made no call).
\<close>

theorem pending_slot_filled:
  assumes "plain_read p ''register_implementors'' = Some v" and "\<not> to_boolean v"
    and "takes_write p ''pending_implementors''"
  shows "load h p =
           (Normal,
            \<lparr>store = store p @ [implementors_object],
             window = (window p)(''pending_implementors'' \<mapsto> Data (table_ref p) True),
             implementors = table_ref p,
             trace = [Store ''pending_implementors'' (table_ref p)]\<rparr>) \<and>
         slot_object (snd (load h p)) ''pending_implementors'' = implementors_object \<and>
         calls (trace (snd (load h p))) = []"
  using assms by (simp add: load_absent_takes slot_object_def)

theorem pending_slot_filled_witness:
  "plain_read blank_page ''register_implementors'' = Some JUndefined \<and>
   takes_write blank_page ''pending_implementors'' \<and>
   load throwing_host blank_page =
     (Normal,
      \<lparr>store = [implementors_object],
       window = (window blank_page)(''pending_implementors'' \<mapsto> Data (JRef 0) True),
       implementors = JRef 0,
       trace = [Store ''pending_implementors'' (JRef 0)]\<rparr>) \<and>
   slot_object (snd (load throwing_host blank_page)) ''pending_implementors'' =
     implementors_object"
  using pending_slot_filled [of blank_page JUndefined throwing_host]
  by (simp add: blank_page_def plain_read_def takes_write_def slot_object_def)

text \<open>
  C2 as stated, for every page without a hook, does not hold: on a page that has made
  \<^verbatim>\<open>pending_implementors\<close> a read-only property, no hook is defined, the assignment
  of the script is dropped without an error, and the slot holds afterwards what it held
  before.
\<close>

theorem pending_slot_can_stay:
  "plain_read locked_page ''register_implementors'' = Some JUndefined \<and>
   fst (load returning_host locked_page) = Normal \<and>
   window (snd (load returning_host locked_page)) ''pending_implementors'' =
     Some (Data (JStr ''old'') False) \<and>
   slot_object (snd (load returning_host locked_page)) ''pending_implementors'' = JStr ''old''"
proof -
  have absent: "plain_read locked_page ''register_implementors'' = Some JUndefined"
    by (simp add: locked_page_def plain_read_def)
  have locked: "drops_write locked_page ''pending_implementors''"
    by (simp add: locked_page_def drops_write_def)
  have "load returning_host locked_page =
    (Normal,
     \<lparr>store = store locked_page @ [implementors_object], window = window locked_page,
      implementors = table_ref locked_page,
      trace = [Store ''pending_implementors'' (table_ref locked_page)]\<rparr>)"
    using absent locked by (rule load_absent_drops [where v = JUndefined, simplified])
  with absent show ?thesis by (simp add: slot_object_def locked_page_def)
qed

section \<open>The table\<close>

text \<open>
  C3. Whatever the page, the table the script has built when the dispatch starts has
  exactly the keys \<^verbatim>\<open>quinn_proto\<close>, \<^verbatim>\<open>rustls\<close>, \<^verbatim>\<open>tinyvec\<close> and \<^verbatim>\<open>webpki\<close>, in
  this order; each is mapped to an array, of 4, 2, 1 and 2 records, as many as the
  source literal holds, so none is empty.
\<close>

theorem table_cardinalities:
  "load h p = dispatch h (built p) \<and>
   object_keys (table_of (built p)) =
     [''quinn_proto'', ''rustls'', ''tinyvec'', ''webpki''] \<and>
   map (\<lambda>k. is_array (get_property (table_of (built p)) k))
     (object_keys (table_of (built p))) = [True, True, True, True] \<and>
   map (\<lambda>k. length (elements (get_property (table_of (built p)) k)))
     (object_keys (table_of (built p))) = [4, 2, 1, 2] \<and>
   list_all (\<lambda>k. elements (get_property (table_of (built p)) k) \<noteq> [])
     (object_keys (table_of (built p)))"
  by (simp add: load_dispatch table_built quinn_proto_impls_def rustls_impls_def
      tinyvec_impls_def webpki_impls_def)

text \<open>
  C6. Every record of every entry of the table has exactly the properties
  \<^verbatim>\<open>text\<close>, \<^verbatim>\<open>synthetic\<close> and \<^verbatim>\<open>types\<close>: \<^verbatim>\<open>text\<close> is a string, \<^verbatim>\<open>synthetic\<close> a
  boolean, and \<^verbatim>\<open>types\<close> an array of strings, each the path of a type qualified from
  the library under whose key the record stands.
\<close>

theorem record_fields:
  "load h p = dispatch h (built p) \<and>
   list_all
     (\<lambda>k. list_all (record_shape k) (elements (get_property (table_of (built p)) k)))
     (object_keys (table_of (built p)))"
  by (simp add: load_dispatch table_built record_shape_def quinn_proto_impls_def
      rustls_impls_def tinyvec_impls_def webpki_impls_def)

text \<open>
  C10. Every record of every entry of the table has \<^verbatim>\<open>synthetic\<close> equal to
  \<^verbatim>\<open>false\<close>, and its \<^verbatim>\<open>types\<close> array has exactly one element. Listed entry by entry
  and record by record: the flag and the number of type identifiers.
\<close>

theorem synthetic_false_one_type:
  "load h p = dispatch h (built p) \<and>
   map (\<lambda>k. map (\<lambda>r. (get_property r ''synthetic'', length (elements (get_property r ''types''))))
              (elements (get_property (table_of (built p)) k)))
     (object_keys (table_of (built p))) =
   [[(JBool False, 1), (JBool False, 1), (JBool False, 1), (JBool False, 1)],
    [(JBool False, 1), (JBool False, 1)],
    [(JBool False, 1)],
    [(JBool False, 1), (JBool False, 1)]]"
  by (simp add: load_dispatch table_built quinn_proto_impls_def rustls_impls_def
      tinyvec_impls_def webpki_impls_def)











lemma assignment_keys:
  "map fst assignments = [''quinn_proto'', ''rustls'', ''tinyvec'', ''webpki'']"
  by (simp add: assignments_def)

lemma load_store_kept:
  assumes "\<forall>i args q. store (snd (h i args q)) = store q"
  shows "table_of (snd (load h p)) = implementors_object"
proof -
  have "store (snd (load h p)) = store (built p)"
    using assms by (simp add: load_dispatch dispatch_store)
  moreover have "implementors (snd (load h p)) = implementors (built p)"
    by (simp add: load_dispatch dispatch_keeps_variable)
  ultimately have "table_of (snd (load h p)) = table_of (built p)"
    by (simp add: table_of_def)
  then show ?thesis by (simp add: table_built)
qed

text \<open>
  The table is one object, handed over by reference: a hook can change it, and the change
  is seen through the script's variable. Here the hook empties every object.
\<close>

lemma hook_can_change_table:
  "table_of (snd (load emptying_host hooked_page)) = JObj []"
proof -
  have hook: "plain_read hooked_page ''register_implementors'' = Some (JFunction 0)"
    by (simp add: hooked_page_def plain_read_def)
  show ?thesis
    unfolding load_function [OF hook, of emptying_host]
    by (simp add: emptying_host_def table_of_def hooked_page_def)
qed

text \<open>
  C5. The keys of the table are unique: the four assignments of the script name four
  different libraries, none is assigned twice, and the keys of the table built are these
  four. After the last assignment the script does not change the table. The one
  statement that follows, the dispatch, never assigns to the variable, and whatever
  changes it makes to the store are made by the functions of the page it runs: with
  functions that leave the store alone, the dispatch leaves it as it finds it, from any
  state, and at the end of the load the variable still refers to the table as built.
  A hook is called on the page in which the table is as built, and the page at the end
  is the page the hook leaves: the script changes nothing before the call or after it.
\<close>

theorem keys_unique_table_unchanged:
  "distinct (map fst assignments) \<and>
   object_keys (table_of (built p)) = map fst assignments \<and>
   load h p = dispatch h (built p) \<and>
   table_of (built p) = implementors_object \<and>
   implementors (snd (dispatch h s)) = implementors s \<and>
   ((\<forall>i args q. store (snd (h i args q)) = store q) \<longrightarrow>
      store (snd (dispatch h s)) = store s \<and>
      table_of (snd (load h p)) = implementors_object) \<and>
   (plain_read p ''register_implementors'' = Some (JFunction i) \<longrightarrow>
      deref (store (built_page p)) (table_ref p) = implementors_object \<and>
      page_of (snd (load h p)) = snd (h i [table_ref p] (built_page p)))"
proof -
  have keys: "distinct (map fst assignments)"
    "object_keys (table_of (built p)) = map fst assignments"
    by (simp_all add: assignment_keys table_built)
  have frame: "(\<forall>i args q. store (snd (h i args q)) = store q) \<longrightarrow>
      store (snd (dispatch h s)) = store s \<and>
      table_of (snd (load h p)) = implementors_object"
    by (simp add: dispatch_store load_store_kept)
  have hook: "plain_read p ''register_implementors'' = Some (JFunction i) \<longrightarrow>
      deref (store (built_page p)) (table_ref p) = implementors_object \<and>
      page_of (snd (load h p)) = snd (h i [table_ref p] (built_page p))"
    by (simp add: load_function page_of_def)
  from keys frame hook show ?thesis
    by (simp only: load_dispatch table_built dispatch_keeps_variable simp_thms)
qed

theorem keys_unique_table_unchanged_witness:
  "(\<forall>i args q. store (snd (returning_host i args q)) = store q) \<and>
   table_of (snd (load returning_host hooked_page)) = implementors_object \<and>
   plain_read hooked_page ''register_implementors'' = Some (JFunction 0) \<and>
   page_of (snd (load emptying_host hooked_page)) =
     snd (emptying_host 0 [table_ref hooked_page] (built_page hooked_page))"
proof -
  have keep: "\<forall>i args q. store (snd (returning_host i args q)) = store q"
    by (simp add: returning_host_def)
  have hook: "plain_read hooked_page ''register_implementors'' = Some (JFunction 0)"
    by (simp add: hooked_page_def plain_read_def)
  have "table_of (snd (load returning_host hooked_page)) = implementors_object"
    using keys_unique_table_unchanged
      [where p = hooked_page and h = returning_host and s = "initial blank_page" and i = 0] keep
    by blast
  moreover have "page_of (snd (load emptying_host hooked_page)) =
     snd (emptying_host 0 [table_ref hooked_page] (built_page hooked_page))"
    using keys_unique_table_unchanged
      [where p = hooked_page and h = emptying_host and s = "initial blank_page" and i = 0] hook
    by blast
  ultimately show ?thesis using keep hook by blast
qed

section \<open>Completion and effects\<close>

text \<open>
  C7, as the code has it. Building the table never fails. With the hook absent and no
  setter on \<^verbatim>\<open>pending_implementors\<close>, the load completes normally: the store is
  ordinary control flow, also where the property is read-only and the store is dropped.
  Where the dispatch runs a function of the page, the script adds no failure of its own
  and the load completes as that call does: the hook, when \<^verbatim>\<open>register_implementors\<close>
  holds a function, and the setter of \<^verbatim>\<open>pending_implementors\<close> on the fallback. When
  \<^verbatim>\<open>register_implementors\<close> holds a truthy value that is not a function, the call
  raises a TypeError. There is no other failure: an exception that ends a load is that
  TypeError or one a function of the page has raised (hook, setter, or a getter of
  \<^verbatim>\<open>register_implementors\<close>).
\<close>

theorem load_completion:
  "fst (construct (initial p)) = Normal \<and>
   (plain_read p ''register_implementors'' = Some v \<and> \<not> to_boolean v \<and>
    (takes_write p ''pending_implementors'' \<or> drops_write p ''pending_implementors'') \<longrightarrow>
      fst (load h p) = Normal) \<and>
   (plain_read p ''register_implementors'' = Some v \<and> \<not> to_boolean v \<and>
    setter_of p ''pending_implementors'' = Some st \<longrightarrow>
      fst (load h p) = completion_of (fst (h st [table_ref p] (built_page p)))) \<and>
   (plain_read p ''register_implementors'' = Some (JFunction i) \<longrightarrow>
      fst (load h p) = completion_of (fst (h i [table_ref p] (built_page p)))) \<and>
   (plain_read p ''register_implementors'' = Some v \<and> to_boolean v \<and> \<not> is_function v \<longrightarrow>
      fst (load h p) = Throw TypeError) \<and>
   (fst (load h p) = Throw e \<longrightarrow>
      e = TypeError \<or> (\<exists>j args q. fst (h j args q) = Raise e))"
proof (intro conjI impI)
  show "fst (construct (initial p)) = Normal"
    by (simp add: construct_builds)
next
  assume "plain_read p ''register_implementors'' = Some v \<and> \<not> to_boolean v \<and>
    (takes_write p ''pending_implementors'' \<or> drops_write p ''pending_implementors'')"
  then show "fst (load h p) = Normal"
    by (auto simp: load_absent_takes load_absent_drops)
next
  assume "plain_read p ''register_implementors'' = Some v \<and> \<not> to_boolean v \<and>
    setter_of p ''pending_implementors'' = Some st"
  then show "fst (load h p) = completion_of (fst (h st [table_ref p] (built_page p)))"
    by (simp add: load_absent_setter)
next
  assume "plain_read p ''register_implementors'' = Some (JFunction i)"
  then show "fst (load h p) = completion_of (fst (h i [table_ref p] (built_page p)))"
    by (simp add: load_function)
next
  assume "plain_read p ''register_implementors'' = Some v \<and> to_boolean v \<and> \<not> is_function v"
  then show "fst (load h p) = Throw TypeError"
    by (simp add: load_not_callable)
next
  assume "fst (load h p) = Throw e"
  then show "e = TypeError \<or> (\<exists>j args q. fst (h j args q) = Raise e)"
    by (rule load_throw)
qed

theorem load_completion_witness:
  "fst (load throwing_host blank_page) = Normal \<and>
   fst (load throwing_host locked_page) = Normal \<and>
   fst (load returning_host guarded_page) = Normal \<and>
   fst (load throwing_host guarded_page) = Throw (HostException (JStr ''register failed'')) \<and>
   fst (load returning_host hooked_page) = Normal \<and>
   fst (load returning_host flagged_page) = Throw TypeError"
proof -
  have blank: "plain_read blank_page ''register_implementors'' = Some JUndefined"
    "takes_write blank_page ''pending_implementors''"
    by (simp_all add: blank_page_def plain_read_def takes_write_def)
  have locked: "plain_read locked_page ''register_implementors'' = Some JUndefined"
    "drops_write locked_page ''pending_implementors''"
    by (simp_all add: locked_page_def plain_read_def drops_write_def)
  have guarded: "plain_read guarded_page ''register_implementors'' = Some JUndefined"
    "setter_of guarded_page ''pending_implementors'' = Some 1"
    by (simp_all add: guarded_page_def plain_read_def setter_of_def)
  have hooked: "plain_read hooked_page ''register_implementors'' = Some (JFunction 0)"
    by (simp add: hooked_page_def plain_read_def)
  have flagged: "plain_read flagged_page ''register_implementors'' = Some (JBool True)"
    by (simp add: flagged_page_def plain_read_def)
  have "fst (load throwing_host blank_page) = Normal"
    using load_completion [where p = blank_page and v = JUndefined and h = throwing_host] blank
    by simp
  moreover have "fst (load throwing_host locked_page) = Normal"
    using load_completion [where p = locked_page and v = JUndefined and h = throwing_host] locked
    by simp
  moreover have "fst (load returning_host guarded_page) = Normal"
    using load_completion
      [where p = guarded_page and v = JUndefined and h = returning_host and st = 1] guarded
    by (simp add: returning_host_def)
  moreover have "fst (load throwing_host guarded_page) =
      Throw (HostException (JStr ''register failed''))"
    using load_completion
      [where p = guarded_page and v = JUndefined and h = throwing_host and st = 1] guarded
    by (simp add: throwing_host_def)
  moreover have "fst (load returning_host hooked_page) = Normal"
    using load_completion [where p = hooked_page and h = returning_host and i = 0] hooked
    by (simp add: returning_host_def)
  moreover have "fst (load returning_host flagged_page) = Throw TypeError"
    using load_completion [where p = flagged_page and v = "JBool True" and h = returning_host]
      flagged
    by simp
  ultimately show ?thesis by blast
qed

text \<open>
  C7 as stated, that a load cannot fail in any state of the page, does not hold: on a
  page whose hook throws, the exception leaves the script, which has no handler; and on
  a page where the property holds \<^verbatim>\<open>true\<close>, the script's own call raises a TypeError.
\<close>

theorem load_can_fail:
  "fst (load throwing_host hooked_page) = Throw (HostException (JStr ''register failed'')) \<and>
   fst (load returning_host flagged_page) = Throw TypeError"
proof -
  have hooked: "plain_read hooked_page ''register_implementors'' = Some (JFunction 0)"
    by (simp add: hooked_page_def plain_read_def)
  have flagged: "plain_read flagged_page ''register_implementors'' = Some (JBool True)"
    by (simp add: flagged_page_def plain_read_def)
  have "fst (load throwing_host hooked_page) = Throw (HostException (JStr ''register failed''))"
    unfolding load_function [OF hooked, of throwing_host] by (simp add: throwing_host_def)
  moreover have "fst (load returning_host flagged_page) = Throw TypeError"
    using load_not_callable [OF flagged, of returning_host] by simp
  ultimately show ?thesis by blast
qed

text \<open>
  C9. In every run the script does at most one thing to the page: the calls and stores
  it makes are together at most one, so never both a call and a store, and the only
  property it can store to is \<^verbatim>\<open>pending_implementors\<close>, once, with the reference of
  the table. With the hook absent it makes that one store and no call: where the
  property takes the value, the page differs from the page before in that property alone
  (and in the table standing in the store); where the store is dropped, the page is as it
  was; where the property has a setter, the page is the page the setter leaves. With
  the property truthy it stores nothing; with a function there, it makes the one call,
  and the page at the end is the page the hook has made of the page as it was: the script
  has written nothing to it, the pending slot included. With a truthy value that is not
  a function the call raises the TypeError before anything is invoked, and the page is
  as it was.
\<close>

theorem one_effect_only:
  "length (calls (trace (snd (load h p)))) + length (stores (trace (snd (load h p)))) \<le> 1 \<and>
   (stores (trace (snd (load h p))) = [] \<or>
    stores (trace (snd (load h p))) = [(''pending_implementors'', table_ref p)]) \<and>
   deref (store (built_page p)) (table_ref p) = implementors_object \<and>
   (plain_read p ''register_implementors'' = Some v \<and> \<not> to_boolean v \<longrightarrow>
      calls (trace (snd (load h p))) = [] \<and>
      stores (trace (snd (load h p))) = [(''pending_implementors'', table_ref p)]) \<and>
   (plain_read p ''register_implementors'' = Some v \<and> \<not> to_boolean v \<and>
    takes_write p ''pending_implementors'' \<longrightarrow>
      page_of (snd (load h p)) =
        \<lparr>store = store p @ [implementors_object],
         window = (window p)(''pending_implementors'' \<mapsto> Data (table_ref p) True)\<rparr>) \<and>
   (plain_read p ''register_implementors'' = Some v \<and> \<not> to_boolean v \<and>
    drops_write p ''pending_implementors'' \<longrightarrow>
      page_of (snd (load h p)) = built_page p) \<and>
   (plain_read p ''register_implementors'' = Some v \<and> \<not> to_boolean v \<and>
    setter_of p ''pending_implementors'' = Some st \<longrightarrow>
      page_of (snd (load h p)) = snd (h st [table_ref p] (built_page p))) \<and>
   (plain_read p ''register_implementors'' = Some v \<and> to_boolean v \<longrightarrow>
      stores (trace (snd (load h p))) = []) \<and>
   (plain_read p ''register_implementors'' = Some (JFunction i) \<longrightarrow>
      calls (trace (snd (load h p))) = [(JFunction i, [table_ref p])] \<and>
      page_of (snd (load h p)) = snd (h i [table_ref p] (built_page p))) \<and>
   (plain_read p ''register_implementors'' = Some v \<and> to_boolean v \<and> \<not> is_function v \<longrightarrow>
      trace (snd (load h p)) = [] \<and> page_of (snd (load h p)) = built_page p)"
proof (intro conjI impI)
  show "length (calls (trace (snd (load h p)))) + length (stores (trace (snd (load h p)))) \<le> 1"
    using load_trace [of h p] by auto
next
  show "stores (trace (snd (load h p))) = [] \<or>
      stores (trace (snd (load h p))) = [(''pending_implementors'', table_ref p)]"
    using load_trace [of h p] by auto
next
  show "deref (store (built_page p)) (table_ref p) = implementors_object"
    by simp
next
  assume absent: "plain_read p ''register_implementors'' = Some v \<and> \<not> to_boolean v"
  then have "trace (snd (load h p)) = [Store ''pending_implementors'' (table_ref p)]"
    by (cases p "''pending_implementors''" rule: write_cases)
       (simp_all add: load_absent_takes load_absent_drops load_absent_setter)
  then show "calls (trace (snd (load h p))) = []"
    and "stores (trace (snd (load h p))) = [(''pending_implementors'', table_ref p)]"
    by simp_all
next
  assume "plain_read p ''register_implementors'' = Some v \<and> \<not> to_boolean v \<and>
    takes_write p ''pending_implementors''"
  then show "page_of (snd (load h p)) =
        \<lparr>store = store p @ [implementors_object],
         window = (window p)(''pending_implementors'' \<mapsto> Data (table_ref p) True)\<rparr>"
    by (simp add: load_absent_takes page_of_def)
next
  assume "plain_read p ''register_implementors'' = Some v \<and> \<not> to_boolean v \<and>
    drops_write p ''pending_implementors''"
  then show "page_of (snd (load h p)) = built_page p"
    by (simp add: load_absent_drops page_of_def)
next
  assume "plain_read p ''register_implementors'' = Some v \<and> \<not> to_boolean v \<and>
    setter_of p ''pending_implementors'' = Some st"
  then show "page_of (snd (load h p)) = snd (h st [table_ref p] (built_page p))"
    by (simp add: load_absent_setter page_of_def)
next
  assume truthy: "plain_read p ''register_implementors'' = Some v \<and> to_boolean v"
  show "stores (trace (snd (load h p))) = []"
  proof (cases "is_function v")
    case True
    then obtain j where "v = JFunction j" by (cases v) simp_all
    with truthy show ?thesis by (simp add: load_function)
  next
    case False
    with truthy show ?thesis by (simp add: load_not_callable)
  qed
next
  assume hook: "plain_read p ''register_implementors'' = Some (JFunction i)"
  then show "calls (trace (snd (load h p))) = [(JFunction i, [table_ref p])]"
    and "page_of (snd (load h p)) = snd (h i [table_ref p] (built_page p))"
    by (simp_all add: load_function page_of_def)
next
  assume "plain_read p ''register_implementors'' = Some v \<and> to_boolean v \<and> \<not> is_function v"
  then show "trace (snd (load h p)) = []" and "page_of (snd (load h p)) = built_page p"
    by (simp_all add: load_not_callable page_of_def)
qed

theorem one_effect_only_witness:
  "stores (trace (snd (load returning_host blank_page))) =
     [(''pending_implementors'', JRef 0)] \<and>
   calls (trace (snd (load returning_host blank_page))) = [] \<and>
   page_of (snd (load returning_host blank_page)) =
     \<lparr>store = [implementors_object],
      window = (window blank_page)(''pending_implementors'' \<mapsto> Data (JRef 0) True)\<rparr> \<and>
   page_of (snd (load returning_host locked_page)) = built_page locked_page \<and>
   page_of (snd (load returning_host guarded_page)) = built_page guarded_page \<and>
   stores (trace (snd (load returning_host hooked_page))) = [] \<and>
   calls (trace (snd (load returning_host hooked_page))) = [(JFunction 0, [JRef 0])] \<and>
   page_of (snd (load returning_host hooked_page)) = built_page hooked_page \<and>
   trace (snd (load returning_host flagged_page)) = [] \<and>
   page_of (snd (load returning_host flagged_page)) = built_page flagged_page"
proof -
  have blank: "plain_read blank_page ''register_implementors'' = Some JUndefined"
    "takes_write blank_page ''pending_implementors''"
    by (simp_all add: blank_page_def plain_read_def takes_write_def)
  have locked: "plain_read locked_page ''register_implementors'' = Some JUndefined"
    "drops_write locked_page ''pending_implementors''"
    by (simp_all add: locked_page_def plain_read_def drops_write_def)
  have guarded: "plain_read guarded_page ''register_implementors'' = Some JUndefined"
    "setter_of guarded_page ''pending_implementors'' = Some 1"
    by (simp_all add: guarded_page_def plain_read_def setter_of_def)
  have hooked: "plain_read hooked_page ''register_implementors'' = Some (JFunction 0)"
    by (simp add: hooked_page_def plain_read_def)
  have flagged: "plain_read flagged_page ''register_implementors'' = Some (JBool True)"
    by (simp add: flagged_page_def plain_read_def)
  have "stores (trace (snd (load returning_host blank_page))) =
          [(''pending_implementors'', JRef 0)] \<and>
        calls (trace (snd (load returning_host blank_page))) = [] \<and>
        page_of (snd (load returning_host blank_page)) =
          \<lparr>store = [implementors_object],
           window = (window blank_page)(''pending_implementors'' \<mapsto> Data (JRef 0) True)\<rparr>"
    using one_effect_only [where h = returning_host and p = blank_page and v = JUndefined] blank
    by (simp add: blank_page_def)
  moreover have "page_of (snd (load returning_host locked_page)) = built_page locked_page"
    using one_effect_only [where h = returning_host and p = locked_page and v = JUndefined]
      locked
    by simp
  moreover have "page_of (snd (load returning_host guarded_page)) = built_page guarded_page"
    using one_effect_only
      [where h = returning_host and p = guarded_page and v = JUndefined and st = 1] guarded
    by (simp add: returning_host_def)
  moreover have "stores (trace (snd (load returning_host hooked_page))) = [] \<and>
        calls (trace (snd (load returning_host hooked_page))) = [(JFunction 0, [JRef 0])] \<and>
        page_of (snd (load returning_host hooked_page)) = built_page hooked_page"
    using one_effect_only
      [where h = returning_host and p = hooked_page and v = "JFunction 0" and i = 0] hooked
    by (simp add: returning_host_def hooked_page_def)
  moreover have "trace (snd (load returning_host flagged_page)) = [] \<and>
        page_of (snd (load returning_host flagged_page)) = built_page flagged_page"
    using one_effect_only [where h = returning_host and p = flagged_page and v = "JBool True"]
      flagged
    by simp
  ultimately show ?thesis by blast
qed

end
